theory Spec2Isabelle
  imports Complex_Main "HOL-Library.Product_Lexorder"
begin

section \<open>Errors raised by the Python code\<close>

text \<open>
  Every exception the modelled code can raise is a value of \<open>error\<close>; a function that
  can raise returns \<open>error + 'a\<close>, with \<open>Inl\<close> for the exception.
\<close>

datatype error =
    AssertionError
  | KeyError
  | IndexError
  | TypeError
  | RuntimeError
  | AttributeError
  | NotImplementedError
  | LinAlgError

section \<open>gnn\_comparison/datasets/data.py: \<open>Data.to_numpy_array\<close>\<close>

text \<open>
  A \<open>Data\<close> record carries the node feature matrix \<open>x\<close> (one row per node) and the
  coordinate edge list \<open>edge_index\<close>, a 2 x E integer tensor: column \<open>e\<close> is the pair
  \<open>(edge_index[0][e], edge_index[1][e])\<close>, modelled as the \<open>e\<close>-th pair of a list.
  The constructor reads \<open>self.x.shape[0]\<close>, so \<open>x\<close> is always a tensor with a leading
  axis; \<open>edge_index\<close> defaults to \<open>None\<close>.
\<close>

record Data =
  data_x :: "real list list"
  data_edge_index :: "(int \<times> int) list option"

text \<open>numpy's index normalisation on an axis of size \<open>n\<close>: negative indices count from the end.\<close>

definition np_index :: "nat \<Rightarrow> int \<Rightarrow> error + nat" where
  "np_index n i =
     (if 0 \<le> i \<and> i < int n then Inr (nat i)
      else if - int n \<le> i \<and> i < 0 then Inr (nat (int n + i))
      else Inl IndexError)"

text \<open>\<open>np.ones((n, m))\<close>.\<close>

definition np_ones :: "nat \<Rightarrow> nat \<Rightarrow> real list list" where
  "np_ones n m = replicate n (replicate m 1)"

text \<open>
  \<open>m[rows, cols] = v\<close> on an \<open>n\<close> x \<open>n\<close> array with two index vectors: every addressed
  entry is set to \<open>v\<close>; an index outside the axis raises \<open>IndexError\<close>.
\<close>

fun np_set_entries :: "nat \<Rightarrow> real list list \<Rightarrow> (int \<times> int) list \<Rightarrow> real \<Rightarrow> error + real list list" where
  "np_set_entries n m [] v = Inr m"
| "np_set_entries n m ((r, c) # es) v =
     (case np_index n r of
        Inl e \<Rightarrow> Inl e
      | Inr i \<Rightarrow>
          (case np_index n c of
             Inl e \<Rightarrow> Inl e
           | Inr j \<Rightarrow> np_set_entries n (m[i := (m ! i)[j := v]]) es v))"

text \<open>
  \<^verbatim>\<open>
  def to_numpy_array(self):
      self.N = self.x.shape[0]
      m = np.ones((self.N, self.N))
      m[self.edge_index[0], self.edge_index[1]] = 1
      return m
  \<close>
  Subscripting \<open>None\<close> raises \<open>TypeError\<close>.
\<close>

definition to_numpy_array :: "Data \<Rightarrow> error + real list list" where
  "to_numpy_array d =
     (let N = length (data_x d); m = np_ones N N in
      case data_edge_index d of
        None \<Rightarrow> Inl TypeError
      | Some es \<Rightarrow> np_set_entries N m es 1)"

text \<open>The edge list of a record addresses nodes of the record only.\<close>

definition edges_in_range :: "Data \<Rightarrow> bool" where
  "edges_in_range d =
     (case data_edge_index d of
        None \<Rightarrow> False
      | Some es \<Rightarrow> list_all (\<lambda>(r, c). - int (length (data_x d)) \<le> r \<and> r < int (length (data_x d))
                                \<and> - int (length (data_x d)) \<le> c \<and> c < int (length (data_x d))) es)"

section \<open>models.py: tensors\<close>

text \<open>
  A dense tensor is a scalar or a sequence of sub-tensors along its leading axis, so that
  \<open>t[i]\<close> is the \<open>i\<close>-th element of the sequence and \<open>torch.stack(ts, dim=0)\<close> is the
  tensor of the sequence \<open>ts\<close>. Floating-point entries are read as real numbers; the
  conversion \<open>.float()\<close> is the identity on them. An axis of size 0 ends the shape.
\<close>

datatype tensor = Sc real | Ts "tensor list"

fun shape :: "tensor \<Rightarrow> nat list" where
  "shape (Sc v) = []"
| "shape (Ts []) = [0]"
| "shape (Ts (t # ts)) = Suc (length ts) # shape t"

text \<open>\<open>t.shape[i]\<close>: indexing the shape tuple past its end raises \<open>IndexError\<close>.\<close>

definition shape_at :: "tensor \<Rightarrow> nat \<Rightarrow> error + nat" where
  "shape_at t i = (if i < length (shape t) then Inr (shape t ! i) else Inl IndexError)"

text \<open>
  \<open>torch.stack(ts, dim=0)\<close> on a Python list whose entries are tensors or \<open>None\<close>: an
  empty list and tensors of different shapes raise \<open>RuntimeError\<close>, an entry \<open>None\<close>
  raises \<open>TypeError\<close>.
\<close>

definition torch_stack :: "tensor option list \<Rightarrow> error + tensor" where
  "torch_stack ts =
     (if ts = [] then Inl RuntimeError
      else if list_ex (\<lambda>t. t = None) ts then Inl TypeError
      else if list_all (\<lambda>t. shape (the t) = shape (the (hd ts))) ts then Inr (Ts (map the ts))
      else Inl RuntimeError)"

section \<open>models.py: \<open>BaseGraph\<close>\<close>

text \<open>
  The objects of torch\_geometric and the sparse tensor kept in \<open>coo\<close> belong to external
  libraries; the model only stores them.
\<close>

typedecl pyg_Data
typedecl sparse_coo

text \<open>
  The fields of \<open>BaseGraph\<close>. A field that can hold \<open>None\<close> is an option; the dictionaries
  \<open>ndata\<close> and \<open>edata\<close> map a key to a stored value, which can itself be \<open>None\<close>.
\<close>

record BaseGraph =
  graph_type :: "string option"
  ndata :: "string \<rightharpoonup> tensor option"
  edata :: "string \<rightharpoonup> tensor option"
  batch :: bool
  batch_num :: "nat option"
  A :: "tensor option"
  label :: "tensor option"
  coo :: "sparse_coo option"
  node_num :: "nat option"
  pyg_graph :: "pyg_Data option"
  adj_type :: string

text \<open>
  \<^verbatim>\<open>
  def __init__(self, graph_type='default', adj_type='dense', batch=False, batch_num=None, pyg_graph=None):
      self.graph_type = graph_type
      ...
      self.graph_type = None
      self.node_num = None
  \<close>
  The second assignment to \<open>graph_type\<close> overwrites the argument: a new record has
  \<open>graph_type = None\<close> whatever was passed.
\<close>

definition BaseGraph_init :: "string \<Rightarrow> string \<Rightarrow> bool \<Rightarrow> nat option \<Rightarrow> pyg_Data option \<Rightarrow> BaseGraph" where
  "BaseGraph_init g_type a_type b b_num pyg =
     \<lparr>graph_type = None, ndata = Map.empty, edata = Map.empty, batch = b, batch_num = b_num,
      A = None, label = None, coo = None, node_num = None, pyg_graph = pyg, adj_type = a_type\<rparr>"

definition set_node_num :: "BaseGraph \<Rightarrow> nat \<Rightarrow> BaseGraph" where
  "set_node_num g n = g\<lparr>node_num := Some n\<rparr>"

definition set_A :: "BaseGraph \<Rightarrow> tensor \<Rightarrow> BaseGraph" where
  "set_A g adj = g\<lparr>A := Some adj\<rparr>"

definition set_graph_type :: "BaseGraph \<Rightarrow> string option \<Rightarrow> BaseGraph" where
  "set_graph_type g g_type = g\<lparr>graph_type := g_type\<rparr>"

definition set_label :: "BaseGraph \<Rightarrow> tensor \<Rightarrow> BaseGraph" where
  "set_label g l = g\<lparr>label := Some l\<rparr>"

text \<open>\<open>self.ndata['nfeat']\<close> and \<open>self.edata['efeat']\<close>: a missing key raises \<open>KeyError\<close>.\<close>

definition get_node_features :: "BaseGraph \<Rightarrow> error + tensor option" where
  "get_node_features g = (case ndata g ''nfeat'' of None \<Rightarrow> Inl KeyError | Some v \<Rightarrow> Inr v)"

definition get_edge_features :: "BaseGraph \<Rightarrow> error + tensor option" where
  "get_edge_features g = (case edata g ''efeat'' of None \<Rightarrow> Inl KeyError | Some v \<Rightarrow> Inr v)"

text \<open>
  \<^verbatim>\<open>
  def set_node_feat(self, node_feat):
      assert not self.batch and node_feat.shape[0] == self.node_num or \
          (self.batch and node_feat.shape[0] == self.batch_num and node_feat.shape[1] == self.node_num)
      ...
      self.ndata['nfeat'] = node_feat.float()
  \<close>
  The condition is evaluated left to right with short-circuiting; an integer never equals
  \<open>None\<close>.
\<close>

definition set_node_feat :: "BaseGraph \<Rightarrow> tensor \<Rightarrow> error + BaseGraph" where
  "set_node_feat g node_feat =
     (if \<not> batch g then
        (case shape_at node_feat 0 of
           Inl e \<Rightarrow> Inl e
         | Inr s0 \<Rightarrow>
             if Some s0 = node_num g
             then Inr (g\<lparr>ndata := (ndata g)(''nfeat'' \<mapsto> Some node_feat)\<rparr>)
             else Inl AssertionError)
      else
        (case shape_at node_feat 0 of
           Inl e \<Rightarrow> Inl e
         | Inr s0 \<Rightarrow>
             if Some s0 \<noteq> batch_num g then Inl AssertionError
             else
               (case shape_at node_feat 1 of
                  Inl e \<Rightarrow> Inl e
                | Inr s1 \<Rightarrow>
                    if Some s1 = node_num g
                    then Inr (g\<lparr>ndata := (ndata g)(''nfeat'' \<mapsto> Some node_feat)\<rparr>)
                    else Inl AssertionError)))"

definition set_edge_feat :: "BaseGraph \<Rightarrow> tensor \<Rightarrow> BaseGraph" where
  "set_edge_feat g edge_feat = g\<lparr>edata := (edata g)(''efeat'' \<mapsto> Some edge_feat)\<rparr>"

section \<open>models.py: \<open>BaseGraphUtils\<close>\<close>

text \<open>
  \<^verbatim>\<open>
  def from_numpy(A:np.ndarray):
      g = BaseGraph(adj_type='dense')
      g._set_node_num(A.shape[0])
      g._set_A(torch.from_numpy(A).float())
      return g
  \<close>
\<close>

definition from_numpy :: "tensor \<Rightarrow> error + BaseGraph" where
  "from_numpy adj =
     (case shape_at adj 0 of
        Inl e \<Rightarrow> Inl e
      | Inr n \<Rightarrow> Inr (set_A (set_node_num (BaseGraph_init ''default'' ''dense'' False None None) n) adj))"

text \<open>
  The first loop of \<open>init_batch_graph\<close>:
  \<^verbatim>\<open>
  same_node_num = True
  g1 = graphs[0]
  g1_node_num = g1.node_num
  for g in graphs:
      if g1_node_num != g.node_num:
          same_node_num = False
          break
  \<close>
\<close>

fun same_node_num :: "nat option \<Rightarrow> BaseGraph list \<Rightarrow> bool" where
  "same_node_num g1_node_num [] = True"
| "same_node_num g1_node_num (g # gs) =
     (if g1_node_num \<noteq> node_num g then False else same_node_num g1_node_num gs)"

text \<open>The test \<open>g1.graph_type == 'pyg' and not same_node_num\<close> that selects the sparse union.\<close>

definition selects_sparse_union :: "BaseGraph list \<Rightarrow> bool" where
  "selects_sparse_union graphs =
     (graph_type (hd graphs) = Some ''pyg'' \<and> \<not> same_node_num (node_num (hd graphs)) graphs)"

text \<open>
  The body of the loop \<open>for g in graphs\<close> of the dense branch: it appends to the five
  lists \<open>batch_A\<close>, \<open>batch_node_feas\<close>, \<open>batch_edge_feas\<close>, \<open>batch_pos_encs\<close> and
  \<open>batch_labels\<close>.
\<close>

type_synonym batch_lists =
  "tensor option list \<times> tensor option list \<times> tensor option list \<times> tensor option list \<times> tensor option list"

definition batch_step :: "BaseGraph \<Rightarrow> batch_lists \<Rightarrow> error + batch_lists" where
  "batch_step g acc =
     (case acc of (batch_A, batch_node_feas, batch_edge_feas, batch_pos_encs, batch_labels) \<Rightarrow>
        (case get_node_features g of
           Inl e \<Rightarrow> Inl e
         | Inr nf \<Rightarrow>
             (case get_edge_features g of
                Inl e \<Rightarrow> Inl e
              | Inr ef \<Rightarrow>
                  Inr (batch_A @ [A g],
                       batch_node_feas @ [nf],
                       (if ef \<noteq> None then batch_edge_feas @ [ef] else batch_edge_feas),
                       (case ndata g ''pos_enc'' of
                          Some (Some p) \<Rightarrow> batch_pos_encs @ [Some p]
                        | _ \<Rightarrow> batch_pos_encs),
                       (if label g \<noteq> None then batch_labels @ [label g] else batch_labels)))))"

fun batch_loop :: "BaseGraph list \<Rightarrow> batch_lists \<Rightarrow> error + batch_lists" where
  "batch_loop [] acc = Inr acc"
| "batch_loop (g # gs) acc =
     (case batch_step g acc of Inl e \<Rightarrow> Inl e | Inr acc' \<Rightarrow> batch_loop gs acc')"

text \<open>
  The dense-stacking branch of \<open>init_batch_graph\<close> (the \<open>else\<close> of the test above). The
  batched record is built with \<open>BaseGraph(batch=True, batch_num=len(graphs))\<close>; its
  \<open>adj_type\<close> is the constructor's default and its \<open>node_num\<close> is not assigned.
\<close>

definition dense_stack :: "BaseGraph list \<Rightarrow> error + BaseGraph" where
  "dense_stack graphs =
     (let batched_g = set_graph_type
            (BaseGraph_init ''default'' ''dense'' True (Some (length graphs)) None)
            (graph_type (hd graphs)) in
      if adj_type batched_g = ''dense'' \<or> adj_type batched_g = ''both'' then
        (case batch_loop graphs ([], [], [], [], []) of
           Inl e \<Rightarrow> Inl e
         | Inr (batch_A, batch_node_feas, batch_edge_feas, batch_pos_encs, batch_labels) \<Rightarrow>
        (case torch_stack batch_A of
           Inl e \<Rightarrow> Inl e
         | Inr stacked_A \<Rightarrow>
        (case torch_stack batch_node_feas of
           Inl e \<Rightarrow> Inl e
         | Inr stacked_node_feas \<Rightarrow>
        (case set_node_feat (set_A batched_g stacked_A) stacked_node_feas of
           Inl e \<Rightarrow> Inl e
         | Inr g2 \<Rightarrow>
        (case (if batch_pos_encs \<noteq> [] then
                 (case torch_stack batch_pos_encs of
                    Inl e \<Rightarrow> Inl e
                  | Inr p \<Rightarrow> Inr (g2\<lparr>ndata := (ndata g2)(''pos_enc'' \<mapsto> Some p)\<rparr>))
               else Inr g2) of
           Inl e \<Rightarrow> Inl e
         | Inr g3 \<Rightarrow>
        (case (if batch_edge_feas \<noteq> [] then
                 (case torch_stack batch_edge_feas of
                    Inl e \<Rightarrow> Inl e
                  | Inr ef \<Rightarrow> Inr (set_edge_feat g3 ef))
               else Inr g3) of
           Inl e \<Rightarrow> Inl e
         | Inr g4 \<Rightarrow>
             (if batch_labels \<noteq> [] then
                (case torch_stack batch_labels of
                   Inl e \<Rightarrow> Inl e
                 | Inr l \<Rightarrow> Inr (set_label g4 l))
              else Inr g4)))))))
      else if adj_type batched_g = ''coo'' then Inr batched_g
      else Inl NotImplementedError)"

text \<open>
  \<open>init_batch_graph\<close>. The sparse branch hands the members' \<open>pyg_graph\<close> objects to
  torch\_geometric's \<open>Batch.from_data_list\<close> and converts the result with
  \<open>from_pyg_graph\<close>; both work on objects of the external library and are parameters of
  the model.
\<close>

definition init_batch_graph ::
  "(pyg_Data option list \<Rightarrow> error + pyg_Data) \<Rightarrow> (pyg_Data \<Rightarrow> error + BaseGraph)
   \<Rightarrow> BaseGraph list \<Rightarrow> error + BaseGraph" where
  "init_batch_graph from_data_list from_pyg_graph graphs =
     (if \<not> length graphs > 0 then Inl AssertionError
      else if selects_sparse_union graphs then
        (case from_data_list (map pyg_graph graphs) of
           Inl e \<Rightarrow> Inl e
         | Inr pyg_b_graph \<Rightarrow> from_pyg_graph pyg_b_graph)
      else dense_stack graphs)"

subsection \<open>Inputs of the batcher used below\<close>

text \<open>
  \<open>bare_graph\<close> is \<open>from_numpy\<close> of the 1 x 1 zero matrix: no feature is attached.
  \<open>one_node_graph\<close> and \<open>two_node_graph\<close> are built by \<open>from_numpy\<close>, \<open>set_node_feat\<close> and
  \<open>set_edge_feat\<close>; the second is the graph of one undirected edge.
\<close>

definition bare_graph :: BaseGraph where
  "bare_graph =
     \<lparr>graph_type = None, ndata = Map.empty, edata = Map.empty, batch = False, batch_num = None,
      A = Some (Ts [Ts [Sc 0]]),
      label = None, coo = None, node_num = Some 1, pyg_graph = None, adj_type = ''dense''\<rparr>"

definition one_node_graph :: BaseGraph where
  "one_node_graph =
     \<lparr>graph_type = None,
      ndata = [''nfeat'' \<mapsto> Some (Ts [Ts [Sc 1]])],
      edata = [''efeat'' \<mapsto> Some (Ts [])],
      batch = False, batch_num = None,
      A = Some (Ts [Ts [Sc 0]]),
      label = None, coo = None, node_num = Some 1, pyg_graph = None, adj_type = ''dense''\<rparr>"

definition two_node_graph :: BaseGraph where
  "two_node_graph =
     \<lparr>graph_type = None,
      ndata = [''nfeat'' \<mapsto> Some (Ts [Ts [Sc 1], Ts [Sc 2]])],
      edata = [''efeat'' \<mapsto> Some (Ts [Ts [Sc 1], Ts [Sc 1]])],
      batch = False, batch_num = None,
      A = Some (Ts [Ts [Sc 0, Sc 1], Ts [Sc 1, Sc 0]]),
      label = None, coo = None, node_num = Some 2, pyg_graph = None, adj_type = ''dense''\<rparr>"

text \<open>
  The inputs on which the loop and the two stacks of the dense branch succeed: every
  graph has an adjacency, node features with at least one axis and edge features, and
  the adjacencies, and the node features, have one shape.
\<close>

definition has_tensors :: "BaseGraph \<Rightarrow> bool" where
  "has_tensors g =
     (A g \<noteq> None \<and> ndata g ''nfeat'' \<noteq> None \<and> ndata g ''nfeat'' \<noteq> Some None
      \<and> shape (the (the (ndata g ''nfeat''))) \<noteq> [] \<and> edata g ''efeat'' \<noteq> None)"

definition stackable :: "BaseGraph list \<Rightarrow> bool" where
  "stackable graphs =
     (graphs \<noteq> [] \<and> list_all has_tensors graphs \<and>
      list_all (\<lambda>g. shape (the (A g)) = shape (the (A (hd graphs)))
                   \<and> shape (the (the (ndata g ''nfeat''))) = shape (the (the (ndata (hd graphs) ''nfeat''))))
        graphs)"

section \<open>models.py: \<open>BaseGraphUtils.lap_positional_encoding\<close>\<close>

text \<open>
  Python's slice \<open>xs[start:stop]\<close>: a negative bound counts from the end, and both bounds
  are clamped to the list.
\<close>

definition py_slice :: "'a list \<Rightarrow> int \<Rightarrow> int \<Rightarrow> 'a list" where
  "py_slice xs start stop =
     (let n = int (length xs);
          a = (if start < 0 then max 0 (n + start) else min start n);
          b = (if stop < 0 then max 0 (n + stop) else min stop n)
      in drop (nat a) (take (nat b) xs))"

text \<open>
  \<open>np.linalg.eig\<close> returns complex eigenvalues in general; \<open>argsort\<close> orders complex
  numbers by real part, then imaginary part. \<open>np_argsort\<close> returns the indices in
  ascending order of the values; among equal values it keeps the index order, where
  numpy's default sort leaves the order open.
\<close>

definition eig_key :: "complex \<Rightarrow> real \<times> real" where
  "eig_key z = (Re z, Im z)"

definition np_argsort :: "complex list \<Rightarrow> nat list" where
  "np_argsort vals = sort_key (\<lambda>i. eig_key (vals ! i)) [0..<length vals]"

text \<open>The tensor of a real matrix given by its rows (\<open>torch.from_numpy\<close>).\<close>

definition matrix_tensor :: "real list list \<Rightarrow> tensor" where
  "matrix_tensor m = Ts (map (\<lambda>row. Ts (map Sc row)) m)"

text \<open>
  \<^verbatim>\<open>
  def lap_positional_encoding(g: BaseGraph, pos_enc_dim):
      normed_L = utils.calculate_normalized_laplacian(g.A.numpy())
      EigVal, EigVec = np.linalg.eig(normed_L)
      idx = EigVal.argsort() # increasing order
      EigVal, EigVec = EigVal[idx], np.real(EigVec[:,idx])
      g.ndata['pos_enc'] = torch.from_numpy(EigVec[:,1:pos_enc_dim+1]).float()
      g.ndata['eigvec'] = g.ndata['pos_enc'] # shape: NxK
      return g
  \<close>
  The module \<open>utils\<close> is not part of the sources at hand and \<open>np.linalg.eig\<close> is numpy's:
  both are parameters, and either can raise (\<open>np.linalg.eig\<close> raises \<open>LinAlgError\<close> when
  the iteration does not converge). \<open>EigVec\<close> is the list of the rows of the eigenvector
  matrix, so that eigenvector \<open>i\<close> is column \<open>i\<close>. \<open>g.A.numpy()\<close> on \<open>None\<close> raises
  \<open>AttributeError\<close>.
\<close>

definition lap_positional_encoding ::
  "(tensor \<Rightarrow> error + tensor) \<Rightarrow> (tensor \<Rightarrow> error + complex list \<times> complex list list)
   \<Rightarrow> BaseGraph \<Rightarrow> int \<Rightarrow> error + BaseGraph" where
  "lap_positional_encoding calculate_normalized_laplacian np_linalg_eig g pos_enc_dim =
     (case A g of
        None \<Rightarrow> Inl AttributeError
      | Some adj \<Rightarrow>
     (case calculate_normalized_laplacian adj of
        Inl e \<Rightarrow> Inl e
      | Inr normed_L \<Rightarrow>
     (case np_linalg_eig normed_L of
        Inl e \<Rightarrow> Inl e
      | Inr (EigVal, EigVec) \<Rightarrow>
          (let idx = np_argsort EigVal;
               EigVec_sorted = map (\<lambda>row. map (\<lambda>i. Re (row ! i)) idx) EigVec;
               pos_enc = matrix_tensor (map (\<lambda>row. py_slice row 1 (pos_enc_dim + 1)) EigVec_sorted)
           in Inr (g\<lparr>ndata := (ndata g)(''pos_enc'' \<mapsto> Some pos_enc, ''eigvec'' \<mapsto> Some pos_enc)\<rparr>)))))"

text \<open>
  The values of the two parameters on the two-node graph: its normalized Laplacian
  \<open>I - D^{-1/2} A D^{-1/2}\<close> is \<open>[[1, -1], [-1, 1]]\<close>, with eigenvalue 2 for the eigenvector
  \<open>(1, -1) / sqrt 2\<close> and eigenvalue 0 for \<open>(1, 1) / sqrt 2\<close>.
\<close>

definition k2_laplacian :: "tensor \<Rightarrow> error + tensor" where
  "k2_laplacian adj = Inr (Ts [Ts [Sc 1, Sc (- 1)], Ts [Sc (- 1), Sc 1]])"

definition k2_eig :: "tensor \<Rightarrow> error + complex list \<times> complex list list" where
  "k2_eig normed_L =
     Inr ([2, 0],
          [[of_real (1 / sqrt 2), of_real (1 / sqrt 2)],
           [of_real (- (1 / sqrt 2)), of_real (1 / sqrt 2)]])"

section \<open>models.py: \<open>WalkPooling\<close>\<close>

text \<open>
  The module keeps \<open>hidden_channels\<close>, \<open>heads\<close>, \<open>walk_len\<close> and four linear layers.
  Lines 950 to 960 of \<open>attention_mlp\<close> map every row of \<open>x\<close> through
  \<open>lin_key1\<close>, \<open>leaky_relu\<close>, dropout and \<open>lin_key2\<close> to a \<open>heads\<close> x \<open>hidden_channels\<close>
  block \<open>query\<close>, and through the \<open>lin_query\<close> layers to \<open>key\<close>. The learnt layers are
  the two functions \<open>query_net\<close> and \<open>key_net\<close> of the record, from a node embedding to its
  block (dropout in evaluation mode). Floating-point numbers are read as reals.
  An E x \<open>heads\<close> tensor is the list of its E rows; the edge list \<open>edge_index\<close> is the list
  of the pairs \<open>(row, col) = (edge_index[0][e], edge_index[1][e])\<close>.
\<close>

record WalkPooling =
  hidden_channels :: nat
  heads :: nat
  walk_len :: nat
  query_net :: "real list \<Rightarrow> real list list"
  key_net :: "real list \<Rightarrow> real list list"

definition dot :: "real list \<Rightarrow> real list \<Rightarrow> real" where
  "dot u v = sum_list (map2 (*) u v)"

text \<open>
  \<^verbatim>\<open>
  row, col = edge_index
  weights = (query[row] * key[col]).sum(dim=-1) / np.sqrt(self.hidden_channels)
  \<close>
  Indexing a node outside \<open>x\<close> raises \<open>IndexError\<close>.
\<close>

definition attention_mlp :: "WalkPooling \<Rightarrow> real list list \<Rightarrow> (nat \<times> nat) list \<Rightarrow> error + real list list" where
  "attention_mlp wp x edge_index =
     (let query = map (query_net wp) x;
          key = map (key_net wp) x
      in if list_all (\<lambda>(row, col). row < length x \<and> col < length x) edge_index
         then Inr (map (\<lambda>(row, col).
                      map (\<lambda>h. dot (query ! row ! h) (key ! col ! h) / sqrt (real (hidden_channels wp)))
                        [0..<heads wp])
                    edge_index)
         else Inl IndexError)"

definition sigmoid :: "real \<Rightarrow> real" where
  "sigmoid v = 1 / (1 + exp (- v))"

text \<open>\<open>t[keep]\<close> with a boolean vector: the rows at which \<open>keep\<close> is true.\<close>

definition select_rows :: "'a list \<Rightarrow> bool list \<Rightarrow> 'a list" where
  "select_rows xs keep = map fst (filter snd (zip xs keep))"

text \<open>\<open>t[:, h]\<close>, and the tensor whose columns are given.\<close>

definition column :: "nat \<Rightarrow> 'a list list \<Rightarrow> 'a list" where
  "column h t = map (\<lambda>row. row ! h) t"

definition rows_of_columns :: "nat \<Rightarrow> 'a list list \<Rightarrow> 'a list list" where
  "rows_of_columns n cols = map (\<lambda>e. map (\<lambda>c. c ! e) cols) [0..<n]"

text \<open>
  \<open>weights_p = F.softmax(weights, edge_index[1])\<close>. \<open>F\<close> is \<open>torch.nn.functional\<close> (the
  imports of lines 8 and 846); the softmax of torch\_geometric that groups by an index
  vector is not imported in models.py. The second argument of
  \<open>torch.nn.functional.softmax(input, dim)\<close> is the integer axis along which the softmax
  is taken. Given the tensor \<open>edge_index[1]\<close>, torch reads a tensor of one integer as that
  integer (axis 0 or 1 of the E x \<open>heads\<close> input, any other axis is out of range) and
  raises \<open>TypeError\<close> for a tensor of any other size.
\<close>

definition softmax_dim0 :: "real list list \<Rightarrow> real list list" where
  "softmax_dim0 t =
     map (\<lambda>row. map (\<lambda>h. exp (row ! h) / sum_list (map exp (column h t))) [0..<length row]) t"

definition softmax_dim1 :: "real list list \<Rightarrow> real list list" where
  "softmax_dim1 t = map (\<lambda>row. map (\<lambda>v. exp v / sum_list (map exp row)) row) t"

definition F_softmax :: "real list list \<Rightarrow> nat list \<Rightarrow> error + real list list" where
  "F_softmax input dim_arg =
     (case dim_arg of
        [d] \<Rightarrow> if d = 0 then Inr (softmax_dim0 input)
               else if d = 1 then Inr (softmax_dim1 input)
               else Inl IndexError
      | _ \<Rightarrow> Inl TypeError)"

text \<open>
  \<open>scatter_max(src, index, dim=0)[0]\<close> and \<open>scatter_add(src, index, dim=0)\<close> of
  torch\_scatter on one column \<open>src\<close>: entry \<open>d\<close> of the result is the maximum, or the sum,
  of the entries \<open>src[e]\<close> with \<open>index[e] = d\<close>.
\<close>

definition select_into :: "'a list \<Rightarrow> nat list \<Rightarrow> nat \<Rightarrow> 'a list" where
  "select_into src index d = map fst (filter (\<lambda>p. snd p = d) (zip src index))"

definition scatter_max :: "real list \<Rightarrow> nat list \<Rightarrow> nat \<Rightarrow> real" where
  "scatter_max src index d = Max (set (select_into src index d))"

definition scatter_add :: "real list \<Rightarrow> nat list \<Rightarrow> nat \<Rightarrow> real" where
  "scatter_add src index d = sum_list (select_into src index d)"

text \<open>
  The weights of the minus graph, lines 980 to 984, act on every head's column of
  \<open>weights\<close> separately:
  \<^verbatim>\<open>
  weights_m = weights - scatter_max(weights, col, dim=0, dim_size=num_nodes)[0][col]
  weights_m = torch.exp(weights_m)
  weights_m = weights_m * edge_mask.view(-1,1)
  norm = scatter_add(weights_m, col, dim=0, dim_size=num_nodes)[col] + 1e-16
  weights_m = weights_m / norm
  \<close>
  \<open>masked_exp\<close> is the value of \<open>weights_m\<close> after the third line.
\<close>

definition masked_exp :: "real list \<Rightarrow> nat list \<Rightarrow> bool list \<Rightarrow> real list" where
  "masked_exp w col edge_mask =
     (let shifted = map2 (\<lambda>v c. v - scatter_max w col c) w col;
          expd = map exp shifted
      in map2 (\<lambda>v m. v * (if m then 1 else 0)) expd edge_mask)"

definition minus_weights_head :: "real list \<Rightarrow> nat list \<Rightarrow> bool list \<Rightarrow> real list" where
  "minus_weights_head w col edge_mask =
     (let masked = masked_exp w col edge_mask;
          norm = map (\<lambda>c. scatter_add masked col c + 1 / 10 ^ 16) col
      in map2 (/) masked norm)"

definition weights_minus :: "nat \<Rightarrow> real list list \<Rightarrow> nat list \<Rightarrow> bool list \<Rightarrow> real list list" where
  "weights_minus n_heads weights col edge_mask =
     rows_of_columns (length weights)
       (map (\<lambda>h. minus_weights_head (column h weights) col edge_mask) [0..<n_heads])"

text \<open>
  \<^verbatim>\<open>
  def weight_encoder(self, x, edge_index, edge_mask):
      weights = self.attention_mlp(x, edge_index)
      omega = torch.sigmoid(weights[torch.logical_not(edge_mask)])
      row, col = edge_index
      num_nodes = torch.max(edge_index)+1
      weights_p = F.softmax(weights,edge_index[1])
      ...
      return weights_p, weights_m, omega
  \<close>
  A mask of another length than the edge list raises \<open>IndexError\<close>, \<open>torch.max\<close> of an
  empty tensor \<open>RuntimeError\<close>.
\<close>

definition weight_encoder ::
  "WalkPooling \<Rightarrow> real list list \<Rightarrow> (nat \<times> nat) list \<Rightarrow> bool list
   \<Rightarrow> error + real list list \<times> real list list \<times> real list list" where
  "weight_encoder wp x edge_index edge_mask =
     (case attention_mlp wp x edge_index of
        Inl e \<Rightarrow> Inl e
      | Inr weights \<Rightarrow>
          if length edge_mask \<noteq> length edge_index then Inl IndexError
          else
            (let omega = map (map sigmoid) (select_rows weights (map Not edge_mask));
                 col = map snd edge_index
             in if edge_index = [] then Inl RuntimeError
                else
                  (case F_softmax weights col of
                     Inl e \<Rightarrow> Inl e
                   | Inr weights_p \<Rightarrow>
                       Inr (weights_p, weights_minus (heads wp) weights col edge_mask, omega))))"

text \<open>Sequencing of calls that can raise.\<close>

definition and_then :: "error + 'a \<Rightarrow> ('a \<Rightarrow> error + 'b) \<Rightarrow> error + 'b" where
  "and_then m f = (case m of Inl e \<Rightarrow> Inl e | Inr v \<Rightarrow> f v)"

text \<open>
  An elementwise operation on two tensors along their leading axis, with torch's
  broadcasting: the sizes agree, or one of them is 1.
\<close>

definition broadcast2 :: "error \<Rightarrow> ('a \<Rightarrow> 'b \<Rightarrow> 'c) \<Rightarrow> 'a list \<Rightarrow> 'b list \<Rightarrow> error + 'c list" where
  "broadcast2 err f a b =
     (if length a = length b then Inr (map2 f a b)
      else if length a = 1 then Inr (map (f (hd a)) b)
      else if length b = 1 then Inr (map (\<lambda>v. f v (hd b)) a)
      else Inl err)"

text \<open>\<open>t[rows, cols]\<close> with two index vectors, and the assignment \<open>m[:, j] = v\<close>.\<close>

definition adv_index :: "real list list \<Rightarrow> nat list \<Rightarrow> nat list \<Rightarrow> error + real list" where
  "adv_index t rows cols = broadcast2 IndexError (\<lambda>r c. t ! r ! c) rows cols"

definition set_column :: "real list list \<Rightarrow> nat \<Rightarrow> real list \<Rightarrow> error + real list list" where
  "set_column m j v =
     (if length v = length m then Inr (map2 (\<lambda>row val. row[j := val]) m v)
      else if length v = 1 then Inr (map (\<lambda>row. row[j := hd v]) m)
      else Inl RuntimeError)"

text \<open>\<open>torch.arange(start, stop, 2)\<close>.\<close>

definition arange2 :: "nat \<Rightarrow> nat \<Rightarrow> nat list" where
  "arange2 start stop = map (\<lambda>k. start + 2 * k) [0..<(stop + 1 - start) div 2]"

text \<open>The counts of \<open>torch.unique(batch, sorted=True, return_counts=True)\<close>.\<close>

definition unique_counts :: "nat list \<Rightarrow> nat list" where
  "unique_counts batch_vec = map (count_list batch_vec) (sort (remdups batch_vec))"

text \<open>
  \<^verbatim>\<open>
  id_start = 0
  for i in range(batch_size):
      index[id_start:id_start+counts[i]] = torch.arange(0,counts[i],dtype=torch.long).view(-1,1)
      id_start = id_start+counts[i]
  \<close>
\<close>

definition assign_slice :: "'a list \<Rightarrow> nat \<Rightarrow> 'a list \<Rightarrow> 'a list" where
  "assign_slice xs start vals = take start xs @ vals @ drop (start + length vals) xs"

fun index_loop :: "nat list \<Rightarrow> nat list \<Rightarrow> nat list \<Rightarrow> nat \<Rightarrow> error + nat list" where
  "index_loop [] counts index id_start = Inr index"
| "index_loop (i # rest) counts index id_start =
     (if i < length counts
      then index_loop rest counts (assign_slice index id_start [0..<counts ! i]) (id_start + counts ! i)
      else Inl IndexError)"

text \<open>
  \<open>propagate\<close> of \<open>MessagePassing\<close> with the default sum aggregation: the message of edge
  \<open>(row, col)\<close> is \<open>norm * x[row]\<close> (\<open>message\<close>), and row \<open>d\<close> of the result is the sum of
  the messages of the edges with \<open>col = d\<close>.
\<close>

definition message :: "real list \<Rightarrow> real \<Rightarrow> real list" where
  "message x_j norm_e = map (\<lambda>v. norm_e * v) x_j"

definition vec_sum :: "nat \<Rightarrow> real list list \<Rightarrow> real list" where
  "vec_sum width vs = foldr (map2 (+)) vs (replicate width 0)"

definition propagate :: "(nat \<times> nat) list \<Rightarrow> real list list \<Rightarrow> real list \<Rightarrow> error + real list list" where
  "propagate edge_index xs norms =
     (if list_all (\<lambda>(row, col). row < length xs \<and> col < length xs) edge_index
      then Inr (map (\<lambda>d. vec_sum (length (hd xs))
                      (select_into (map2 (\<lambda>(row, col) norm_e. message (xs ! row) norm_e) edge_index norms)
                         (map snd edge_index) d))
                  [0..<length xs])
      else Inl IndexError)"

text \<open>
  \<open>torch.zeros(n, max_nodes).scatter_(1, index, 1)\<close> and \<open>torch.gather(t, 1, index)\<close>.
\<close>

definition one_hot :: "nat list \<Rightarrow> nat \<Rightarrow> real list list" where
  "one_hot index max_nodes = map (\<lambda>i. (replicate max_nodes 0)[i := 1]) index"

definition gather_diag :: "real list list \<Rightarrow> nat list \<Rightarrow> real list" where
  "gather_diag t index = map2 (\<lambda>row i. row ! i) t index"

text \<open>
  The five feature matrices \<open>nodelevel_p\<close>, \<open>nodelevel_m\<close>, \<open>linklevel_p\<close>, \<open>linklevel_m\<close>
  and \<open>graphlevel\<close>, and the statistics written into them:
  \<^verbatim>\<open>
  nodelevel_p_w = x_p[node_i,index[node_i].view(-1)] + x_p[node_j,index[node_j].view(-1)]
  linklevel_p_w = x_p[node_i,index[node_j].view(-1)] + x_p[node_j,index[node_i].view(-1)]
  diag_ele_p = torch.gather(x_p,1,index)
  graphlevel_p = scatter_add(diag_ele_p, batch, dim = 0)
  \<close>
\<close>

type_synonym walk_stats =
  "real list list \<times> real list list \<times> real list list \<times> real list list \<times> real list list"

definition node_level :: "real list list \<Rightarrow> nat list \<Rightarrow> nat list \<Rightarrow> nat list \<Rightarrow> error + real list" where
  "node_level t index node_i node_j =
     and_then (adv_index t node_i (map (\<lambda>v. index ! v) node_i)) (\<lambda>a.
     and_then (adv_index t node_j (map (\<lambda>v. index ! v) node_j)) (\<lambda>b.
       broadcast2 RuntimeError (+) a b))"

definition link_level :: "real list list \<Rightarrow> nat list \<Rightarrow> nat list \<Rightarrow> nat list \<Rightarrow> error + real list" where
  "link_level t index node_i node_j =
     and_then (adv_index t node_i (map (\<lambda>v. index ! v) node_j)) (\<lambda>a.
     and_then (adv_index t node_j (map (\<lambda>v. index ! v) node_i)) (\<lambda>b.
       broadcast2 RuntimeError (+) a b))"

definition graph_level :: "real list list \<Rightarrow> nat list \<Rightarrow> nat list \<Rightarrow> nat \<Rightarrow> real list" where
  "graph_level t index batch_vec batch_size =
     map (scatter_add (gather_diag t index) batch_vec) [0..<batch_size]"

text \<open>One round of the loop \<open>for i in range(self.walk_len)\<close>, the loop, and the loop over the heads.\<close>

definition walk_step ::
  "WalkPooling \<Rightarrow> (nat \<times> nat) list \<Rightarrow> nat list \<Rightarrow> nat list \<Rightarrow> nat \<Rightarrow> nat list \<Rightarrow> nat list
   \<Rightarrow> real list \<Rightarrow> real list \<Rightarrow> nat \<Rightarrow> nat
   \<Rightarrow> real list list \<times> real list list \<times> walk_stats
   \<Rightarrow> error + real list list \<times> real list list \<times> walk_stats" where
  "walk_step wp edge_index index batch_vec batch_size node_i node_j norm_p norm_m head i st =
     (case st of (x_p, x_m, nodelevel_p, nodelevel_m, linklevel_p, linklevel_m, graphlevel) \<Rightarrow>
        and_then (propagate edge_index x_p norm_p) (\<lambda>x_p.
        and_then (propagate edge_index x_m norm_m) (\<lambda>x_m.
        and_then (node_level x_p index node_i node_j) (\<lambda>nodelevel_p_w.
        and_then (node_level x_m index node_i node_j) (\<lambda>nodelevel_m_w.
        and_then (set_column nodelevel_p (head * walk_len wp + i) nodelevel_p_w) (\<lambda>nodelevel_p.
        and_then (set_column nodelevel_m (head * walk_len wp + i) nodelevel_m_w) (\<lambda>nodelevel_m.
        and_then (link_level x_p index node_i node_j) (\<lambda>linklevel_p_w.
        and_then (link_level x_m index node_i node_j) (\<lambda>linklevel_m_w.
        and_then (set_column linklevel_p (head * walk_len wp + i) linklevel_p_w) (\<lambda>linklevel_p.
        and_then (set_column linklevel_m (head * walk_len wp + i) linklevel_m_w) (\<lambda>linklevel_m.
        and_then (set_column graphlevel (head * walk_len wp + i)
                    (map2 (-) (graph_level x_p index batch_vec batch_size)
                              (graph_level x_m index batch_vec batch_size))) (\<lambda>graphlevel.
          Inr (x_p, x_m, nodelevel_p, nodelevel_m, linklevel_p, linklevel_m, graphlevel)))))))))))))"

fun walk_loop ::
  "WalkPooling \<Rightarrow> (nat \<times> nat) list \<Rightarrow> nat list \<Rightarrow> nat list \<Rightarrow> nat \<Rightarrow> nat list \<Rightarrow> nat list
   \<Rightarrow> real list \<Rightarrow> real list \<Rightarrow> nat \<Rightarrow> nat list
   \<Rightarrow> real list list \<times> real list list \<times> walk_stats
   \<Rightarrow> error + real list list \<times> real list list \<times> walk_stats" where
  "walk_loop wp edge_index index batch_vec batch_size node_i node_j norm_p norm_m head [] st = Inr st"
| "walk_loop wp edge_index index batch_vec batch_size node_i node_j norm_p norm_m head (i # rest) st =
     and_then (walk_step wp edge_index index batch_vec batch_size node_i node_j norm_p norm_m head i st)
       (walk_loop wp edge_index index batch_vec batch_size node_i node_j norm_p norm_m head rest)"

fun head_loop ::
  "WalkPooling \<Rightarrow> (nat \<times> nat) list \<Rightarrow> nat list \<Rightarrow> nat list \<Rightarrow> nat \<Rightarrow> nat \<Rightarrow> nat list \<Rightarrow> nat list
   \<Rightarrow> real list list \<Rightarrow> real list list \<Rightarrow> nat list \<Rightarrow> walk_stats \<Rightarrow> error + walk_stats" where
  "head_loop wp edge_index index batch_vec batch_size max_nodes node_i node_j weights_p weights_m [] fs = Inr fs"
| "head_loop wp edge_index index batch_vec batch_size max_nodes node_i node_j weights_p weights_m (head # rest) fs =
     and_then (propagate edge_index (one_hot index max_nodes) (column head weights_p)) (\<lambda>x_p.
     and_then (propagate edge_index (one_hot index max_nodes) (column head weights_m)) (\<lambda>x_m.
     and_then (walk_loop wp edge_index index batch_vec batch_size node_i node_j
                 (column head weights_p) (column head weights_m) head [0..<walk_len wp] (x_p, x_m, fs))
       (\<lambda>(x_p, x_m, fs).
          head_loop wp edge_index index batch_vec batch_size max_nodes node_i node_j
            weights_p weights_m rest fs)))"

text \<open>The body of \<open>forward\<close> after the call of \<open>weight_encoder\<close> (lines 993 to 1081).\<close>

definition walk_features ::
  "WalkPooling \<Rightarrow> (nat \<times> nat) list \<Rightarrow> bool list \<Rightarrow> nat list
   \<Rightarrow> real list list \<Rightarrow> real list list \<Rightarrow> real list list \<Rightarrow> error + real list list" where
  "walk_features wp edge_index edge_mask batch_vec weights_p weights_m omega =
     (if batch_vec = [] then Inl RuntimeError
      else
        (let batch_size = Max (set batch_vec) + 1;
             counts = unique_counts batch_vec;
             max_nodes = Max (set counts)
         in and_then (index_loop [0..<batch_size] counts (replicate (length batch_vec) 0) 0) (\<lambda>index.
            (let zeros = replicate batch_size (replicate (walk_len wp * heads wp) 0);
                 indices_odd = arange2 0 (length omega);
                 indices_even = arange2 1 (length omega)
             in and_then (broadcast2 RuntimeError (map2 (+))
                            (map (\<lambda>k. omega ! k) indices_even) (map (\<lambda>k. omega ! k) indices_odd))
                  (\<lambda>omega.
                  (let link_ij = map fst (select_rows edge_index (map Not edge_mask));
                       node_i = map (\<lambda>k. link_ij ! k) indices_odd;
                       node_j = map (\<lambda>k. link_ij ! k) indices_even
                   in and_then (head_loop wp edge_index index batch_vec batch_size max_nodes
                                  node_i node_j weights_p weights_m [0..<heads wp]
                                  (zeros, zeros, zeros, zeros, zeros))
                        (\<lambda>(nodelevel_p, nodelevel_m, linklevel_p, linklevel_m, graphlevel).
                           if length omega \<noteq> batch_size then Inl RuntimeError
                           else Inr (map (\<lambda>b. graphlevel ! b @ omega ! b @ nodelevel_p ! b
                                              @ nodelevel_m ! b @ linklevel_p ! b @ linklevel_m ! b)
                                       [0..<batch_size]))))))))"

text \<open>\<open>forward\<close>: the call of \<open>weight_encoder\<close> of line 991, then the body.\<close>

definition forward ::
  "WalkPooling \<Rightarrow> real list list \<Rightarrow> (nat \<times> nat) list \<Rightarrow> bool list \<Rightarrow> nat list
   \<Rightarrow> error + real list list" where
  "forward wp x edge_index edge_mask batch_vec =
     and_then (weight_encoder wp x edge_index edge_mask) (\<lambda>(weights_p, weights_m, omega).
       walk_features wp edge_index edge_mask batch_vec weights_p weights_m omega)"

subsection \<open>Inputs of \<open>WalkPooling\<close> used below\<close>

text \<open>
  The ring on four nodes with the candidate link between nodes 0 and 2, the path on three
  nodes with the candidate link between its ends in both stored orders, and a graph in
  which the candidate edge into node 1 has the raw score 100 and the observed edge into
  node 1 the raw score 0.
\<close>

definition ring_pool :: WalkPooling where
  "ring_pool =
     \<lparr>hidden_channels = 2, heads = 1, walk_len = 2,
      query_net = (\<lambda>v. [v]), key_net = (\<lambda>v. [v])\<rparr>"

definition ring_x :: "real list list" where
  "ring_x = [[1, 0], [0, 1], [1, 1], [0, 0]]"

definition ring_edges :: "(nat \<times> nat) list" where
  "ring_edges = [(0, 1), (1, 0), (1, 2), (2, 1), (2, 3), (3, 2), (3, 0), (0, 3), (0, 2), (2, 0)]"

definition ring_mask :: "bool list" where
  "ring_mask = [True, True, True, True, True, True, True, True, False, False]"

definition path_edges :: "(nat \<times> nat) list" where
  "path_edges = [(0, 1), (1, 0), (1, 2), (2, 1), (0, 2), (2, 0)]"

definition path_edges_swapped :: "(nat \<times> nat) list" where
  "path_edges_swapped = [(0, 1), (1, 0), (1, 2), (2, 1), (2, 0), (0, 2)]"

definition path_mask :: "bool list" where
  "path_mask = [True, True, True, True, False, False]"





text \<open>A matrix of \<open>n\<close> rows of \<open>k\<close> entries.\<close>

definition shaped :: "nat \<Rightarrow> nat \<Rightarrow> 'a list list \<Rightarrow> bool" where
  "shaped n k m = (length m = n \<and> list_all (\<lambda>row. length row = k) m)"

definition features_shaped :: "nat \<Rightarrow> nat \<Rightarrow> walk_stats \<Rightarrow> bool" where
  "features_shaped n k fs =
     (case fs of (nodelevel_p, nodelevel_m, linklevel_p, linklevel_m, graphlevel) \<Rightarrow>
        shaped n k nodelevel_p \<and> shaped n k nodelevel_m \<and> shaped n k linklevel_p
        \<and> shaped n k linklevel_m \<and> shaped n k graphlevel)"

section \<open>Properties of \<open>Data.to_numpy_array\<close>\<close>

lemma np_index_in_range:
  "- int n \<le> i \<Longrightarrow> i < int n \<Longrightarrow> \<exists>k. np_index n i = Inr k \<and> k < n"
  by (auto simp: np_index_def)

lemma np_ones_update:
  "i < n \<Longrightarrow> j < n \<Longrightarrow> (np_ones n n)[i := (np_ones n n ! i)[j := 1]] = np_ones n n"
  by (simp add: np_ones_def list_eq_iff_nth_eq nth_list_update)

lemma np_set_entries_ones:
  "list_all (\<lambda>(r, c). - int n \<le> r \<and> r < int n \<and> - int n \<le> c \<and> c < int n) es
   \<Longrightarrow> np_set_entries n (np_ones n n) es 1 = Inr (np_ones n n)"
proof (induction es)
  case Nil
  then show ?case by simp
next
  case (Cons e es)
  obtain r c where e: "e = (r, c)" by (cases e)
  from Cons.prems e obtain i j where
    "np_index n r = Inr i" "i < n" "np_index n c = Inr j" "j < n"
    using np_index_in_range [of n r] np_index_in_range [of n c] by auto
  with Cons e show ?case by (simp add: np_ones_update)
qed

text \<open>
  Claim C10. For every \<open>Data\<close> record with \<open>N\<close> nodes whose edge list addresses these
  nodes, \<open>to_numpy_array\<close> returns the \<open>N\<close> x \<open>N\<close> matrix in which every entry is 1,
  whatever the edges are: the matrix starts as \<open>np.ones\<close> and the edge positions are
  set to 1 again.
\<close>

theorem to_numpy_array_all_ones:
  assumes "edges_in_range d"
  shows "to_numpy_array d = Inr (replicate (length (data_x d)) (replicate (length (data_x d)) 1))"
proof -
  from assms obtain es where es: "data_edge_index d = Some es"
    by (auto simp: edges_in_range_def split: option.splits)
  with assms have "np_set_entries (length (data_x d)) (np_ones (length (data_x d)) (length (data_x d))) es 1
      = Inr (np_ones (length (data_x d)) (length (data_x d)))"
    by (intro np_set_entries_ones) (simp add: edges_in_range_def)
  with es show ?thesis by (simp add: to_numpy_array_def np_ones_def Let_def)
qed

theorem to_numpy_array_all_ones_witness:
  "edges_in_range \<lparr>data_x = [[0], [0], [0]], data_edge_index = Some [(0, 1), (1, 0), (-1, 2)]\<rparr>
   \<and> to_numpy_array \<lparr>data_x = [[0], [0], [0]], data_edge_index = Some [(0, 1), (1, 0), (-1, 2)]\<rparr>
     = Inr [[1, 1, 1], [1, 1, 1], [1, 1, 1]]"
proof -
  have h: "edges_in_range \<lparr>data_x = [[0], [0], [0]], data_edge_index = Some [(0, 1), (1, 0), (-1, 2)]\<rparr>"
    by (simp add: edges_in_range_def)
  show ?thesis
    using h to_numpy_array_all_ones [OF h] by (simp add: numeral_3_eq_3)
qed

section \<open>Properties of the batcher\<close>

lemma example_graphs_built:
  "from_numpy (Ts [Ts [Sc 0]]) = Inr bare_graph"
  "(case from_numpy (Ts [Ts [Sc 0]]) of
      Inl e \<Rightarrow> Inl e
    | Inr g0 \<Rightarrow>
        (case set_node_feat g0 (Ts [Ts [Sc 1]]) of
           Inl e \<Rightarrow> Inl e
         | Inr g1 \<Rightarrow> Inr (set_edge_feat g1 (Ts []))))
   = Inr one_node_graph"
  "(case from_numpy (Ts [Ts [Sc 0, Sc 1], Ts [Sc 1, Sc 0]]) of
      Inl e \<Rightarrow> Inl e
    | Inr g0 \<Rightarrow>
        (case set_node_feat g0 (Ts [Ts [Sc 1], Ts [Sc 2]]) of
           Inl e \<Rightarrow> Inl e
         | Inr g1 \<Rightarrow> Inr (set_edge_feat g1 (Ts [Ts [Sc 1], Ts [Sc 1]]))))
   = Inr two_node_graph"
  by (simp_all add: from_numpy_def shape_at_def set_node_feat_def set_edge_feat_def
      bare_graph_def one_node_graph_def two_node_graph_def
      BaseGraph_init_def set_A_def set_node_num_def)

text \<open>A record made by the constructor has no graph type, whatever is passed.\<close>

lemma BaseGraph_init_graph_type:
  "graph_type (BaseGraph_init g_type a_type b b_num pyg) = None"
  by (simp add: BaseGraph_init_def)

lemma from_numpy_graph_type:
  "from_numpy adj = Inr g \<Longrightarrow> graph_type g = None"
  by (auto simp: from_numpy_def set_A_def set_node_num_def BaseGraph_init_def split: sum.splits)

lemma shape_Ts_map:
  "gs \<noteq> [] \<Longrightarrow> shape (Ts (map f gs)) = length gs # shape (f (hd gs))"
  by (cases gs) simp_all

lemma torch_stack_ok:
  assumes "ts \<noteq> []" and "\<And>t. t \<in> set ts \<Longrightarrow> t \<noteq> None"
    and "\<And>t. t \<in> set ts \<Longrightarrow> shape (the t) = shape (the (hd ts))"
  shows "torch_stack ts = Inr (Ts (map the ts))"
proof -
  have "\<not> list_ex (\<lambda>t. t = None) ts" using assms(2) by (auto simp: list_ex_iff)
  moreover have "list_all (\<lambda>t. shape (the t) = shape (the (hd ts))) ts"
    using assms(3) by (simp add: list_all_iff)
  ultimately show ?thesis using assms(1) by (simp add: torch_stack_def)
qed

lemma set_node_feat_batched:
  assumes "shape t = n # s # ss"
  shows "set_node_feat
          (set_A (set_graph_type (BaseGraph_init gt ''dense'' True (Some n) None) ty) a) t
         = Inl AssertionError"
  using assms
  by (simp add: set_node_feat_def set_A_def set_graph_type_def BaseGraph_init_def shape_at_def)

lemma batch_loop_collects:
  "list_all (\<lambda>g. ndata g ''nfeat'' \<noteq> None \<and> edata g ''efeat'' \<noteq> None) gs \<Longrightarrow>
   \<exists>bE' bP' bL'. batch_loop gs (bA, bN, bE, bP, bL) =
      Inr (bA @ map A gs, bN @ map (\<lambda>g. the (ndata g ''nfeat'')) gs, bE', bP', bL')"
proof (induction gs arbitrary: bA bN bE bP bL)
  case Nil
  then show ?case by simp
next
  case (Cons g gs)
  from Cons.prems obtain nf ef where nf: "ndata g ''nfeat'' = Some nf" and ef: "edata g ''efeat'' = Some ef"
    by auto
  from Cons.prems have rest: "list_all (\<lambda>g. ndata g ''nfeat'' \<noteq> None \<and> edata g ''efeat'' \<noteq> None) gs"
    by simp
  obtain bE1 bP1 bL1 where step:
    "batch_step g (bA, bN, bE, bP, bL) = Inr (bA @ [A g], bN @ [nf], bE1, bP1, bL1)"
    using nf ef by (simp add: batch_step_def get_node_features_def get_edge_features_def)
  from Cons.IH [OF rest, of "bA @ [A g]" "bN @ [nf]" bE1 bP1 bL1] obtain bE' bP' bL' where
    "batch_loop gs (bA @ [A g], bN @ [nf], bE1, bP1, bL1) =
      Inr ((bA @ [A g]) @ map A gs, (bN @ [nf]) @ map (\<lambda>g. the (ndata g ''nfeat'')) gs, bE', bP', bL')"
    by blast
  with step nf show ?case by simp
qed

lemma stackable_assertion:
  assumes "stackable gs"
  shows "dense_stack gs = Inl AssertionError"
proof -
  let ?feat = "\<lambda>g. the (the (ndata g ''nfeat''))"
  from assms have ne: "gs \<noteq> []"
    and all1: "\<forall>g \<in> set gs. has_tensors g"
    and all2: "\<forall>g \<in> set gs. shape (the (A g)) = shape (the (A (hd gs)))
                 \<and> shape (?feat g) = shape (?feat (hd gs))"
    unfolding stackable_def list_all_iff by blast+
  have ht: "has_tensors g" if "g \<in> set gs" for g using all1 that by blast
  have sa: "shape (the (A g)) = shape (the (A (hd gs)))" if "g \<in> set gs" for g
    using all2 that by blast
  have sn: "shape (?feat g) = shape (?feat (hd gs))" if "g \<in> set gs" for g
    using all2 that by blast
  from ne have "hd gs \<in> set gs" by simp
  from ht [OF this] have "shape (?feat (hd gs)) \<noteq> []" by (simp add: has_tensors_def)
  then obtain s ss where dims: "shape (?feat (hd gs)) = s # ss"
    by (cases "shape (?feat (hd gs))") simp_all
  have keys: "list_all (\<lambda>g. ndata g ''nfeat'' \<noteq> None \<and> edata g ''efeat'' \<noteq> None) gs"
    unfolding list_all_iff
  proof
    fix g assume "g \<in> set gs"
    from ht [OF this] show "ndata g ''nfeat'' \<noteq> None \<and> edata g ''efeat'' \<noteq> None"
      by (simp add: has_tensors_def)
  qed
  from batch_loop_collects [OF keys, of "[]" "[]" "[]" "[]" "[]"] obtain bE bP bL where
    loop: "batch_loop gs ([], [], [], [], []) =
       Inr (map A gs, map (\<lambda>g. the (ndata g ''nfeat'')) gs, bE, bP, bL)" by (simp only: append_Nil) blast
  have stA: "torch_stack (map A gs) = Inr (Ts (map (\<lambda>g. the (A g)) gs))"
  proof -
    have "torch_stack (map A gs) = Inr (Ts (map the (map A gs)))"
    proof (rule torch_stack_ok)
      show "map A gs \<noteq> []" using ne by simp
      show "t \<noteq> None" if "t \<in> set (map A gs)" for t
      proof -
        from that obtain g where g: "g \<in> set gs" "t = A g" by auto
        from ht [OF g(1)] g(2) show ?thesis by (simp add: has_tensors_def)
      qed
      show "shape (the t) = shape (the (hd (map A gs)))" if "t \<in> set (map A gs)" for t
      proof -
        from that obtain g where g: "g \<in> set gs" "t = A g" by auto
        have "hd (map A gs) = A (hd gs)" using ne by (simp add: hd_map)
        with sa [OF g(1)] g(2) show ?thesis by (simp only:)
      qed
    qed
    then show ?thesis by (simp add: comp_def)
  qed
  have stN: "torch_stack (map (\<lambda>g. the (ndata g ''nfeat'')) gs) = Inr (Ts (map ?feat gs))"
  proof -
    have "torch_stack (map (\<lambda>g. the (ndata g ''nfeat'')) gs)
        = Inr (Ts (map the (map (\<lambda>g. the (ndata g ''nfeat'')) gs)))"
    proof (rule torch_stack_ok)
      show "map (\<lambda>g. the (ndata g ''nfeat'')) gs \<noteq> []" using ne by simp
      show "t \<noteq> None" if "t \<in> set (map (\<lambda>g. the (ndata g ''nfeat'')) gs)" for t
      proof -
        from that obtain g where g: "g \<in> set gs" "t = the (ndata g ''nfeat'')" by auto
        from ht [OF g(1)] g(2) show ?thesis by (auto simp: has_tensors_def)
      qed
      show "shape (the t) = shape (the (hd (map (\<lambda>g. the (ndata g ''nfeat'')) gs)))"
        if "t \<in> set (map (\<lambda>g. the (ndata g ''nfeat'')) gs)" for t
      proof -
        from that obtain g where g: "g \<in> set gs" "t = the (ndata g ''nfeat'')" by auto
        have "hd (map (\<lambda>g. the (ndata g ''nfeat'')) gs) = the (ndata (hd gs) ''nfeat'')"
          using ne by (simp add: hd_map)
        with sn [OF g(1)] g(2) show ?thesis by (simp only:)
      qed
    qed
    then show ?thesis by (simp add: comp_def)
  qed
  have sh: "shape (Ts (map ?feat gs)) = length gs # s # ss"
    using shape_Ts_map [OF ne, of ?feat] dims by simp
  have snf: "set_node_feat
          (set_A (set_graph_type (BaseGraph_init ''default'' ''dense'' True (Some (length gs)) None)
             (graph_type (hd gs))) (Ts (map (\<lambda>g. the (A g)) gs)))
          (Ts (map ?feat gs)) = Inl AssertionError"
    by (rule set_node_feat_batched [OF sh])
  have adj: "adj_type (set_graph_type (BaseGraph_init ''default'' ''dense'' True (Some (length gs)) None)
       (graph_type (hd gs))) = ''dense''"
    by (simp add: set_graph_type_def BaseGraph_init_def)
  show ?thesis
    unfolding dense_stack_def Let_def by (simp add: adj loop stA stN snf)
qed

lemma same_node_num_iff:
  "same_node_num n gs \<longleftrightarrow> (\<forall>g \<in> set gs. node_num g = n)"
  by (induction gs) auto

lemma dense_stack_isl: "isl (dense_stack graphs)"
  by (auto simp: dense_stack_def Let_def BaseGraph_init_def set_graph_type_def set_A_def
       set_node_feat_def split: sum.splits prod.splits if_splits)

lemma dense_branch_taken:
  "graphs \<noteq> [] \<Longrightarrow> \<not> selects_sparse_union graphs \<Longrightarrow>
   init_batch_graph from_data_list from_pyg_graph graphs = dense_stack graphs"
  by (simp add: init_batch_graph_def)

text \<open>
  The tensor \<open>torch.stack\<close> returns holds the stacked tensors in their order: this is
  what lines 184 and 187 compute from the adjacencies and the node features.
\<close>

lemma torch_stack_rows:
  assumes "torch_stack ts = Inr t"
  shows "\<exists>rows. t = Ts rows \<and> length rows = length ts \<and> (\<forall>i < length ts. ts ! i = Some (rows ! i))"
proof -
  from assms have t: "t = Ts (map the ts)" and some: "\<not> list_ex (\<lambda>t. t = None) ts"
    by (auto simp: torch_stack_def split: if_splits)
  have "ts ! i = Some (the (ts ! i))" if "i < length ts" for i
  proof -
    from that have "ts ! i \<in> set ts" by simp
    with some show ?thesis by (cases "ts ! i") (auto simp: list_ex_iff)
  qed
  with t show ?thesis by simp
qed

text \<open>
  Claim C2. The claim says that for graphs of one node count and one feature width the
  dense path returns a batched record with \<open>batched.A[i] = graphs[i].A\<close> and the same for
  the node features. On two copies of the two-node graph the call raises
  \<open>AssertionError\<close> instead: the adjacencies and the node features are stacked, and then
  \<open>set_node_feat\<close> compares \<open>node_feat.shape[1]\<close> with the \<open>node_num\<close> of the batched
  record, which \<open>init_batch_graph\<close> never sets.
\<close>

theorem init_batch_graph_equal_sizes_raises:
  "init_batch_graph from_data_list from_pyg_graph [two_node_graph, two_node_graph]
     = Inl AssertionError"
  by (simp add: init_batch_graph_def selects_sparse_union_def dense_stack_def two_node_graph_def
      BaseGraph_init_def set_graph_type_def batch_step_def get_node_features_def
      get_edge_features_def torch_stack_def set_A_def set_node_feat_def shape_at_def)

text \<open>
  Claim C3, as stated: every input of the dense-stacking branch raises \<open>AssertionError\<close>
  inside \<open>set_node_feat\<close>. It fails on the graph \<open>from_numpy\<close> returns for the 1 x 1 zero
  matrix: the loop reads \<open>ndata['nfeat']\<close> first and raises \<open>KeyError\<close>.
\<close>

theorem dense_stack_keyerror_counterexample:
  "\<not> selects_sparse_union [bare_graph] \<and> dense_stack [bare_graph] = Inl KeyError
   \<and> dense_stack [bare_graph] \<noteq> Inl AssertionError"
  by (simp add: selects_sparse_union_def dense_stack_def bare_graph_def BaseGraph_init_def
      set_graph_type_def batch_step_def get_node_features_def)

text \<open>
  Claim C3, amended. The dense-stacking branch never returns a record: every input ends
  in an exception. When every graph has an adjacency, node features with at least one
  axis and edge features, and the adjacencies and the node features have one shape each
  (so that the loop and both stacks succeed), the exception is the \<open>AssertionError\<close> of
  \<open>set_node_feat\<close>.
\<close>

theorem dense_stack_never_returns:
  "isl (dense_stack graphs) \<and> (stackable graphs \<longrightarrow> dense_stack graphs = Inl AssertionError)"
  using dense_stack_isl stackable_assertion by blast

theorem dense_stack_never_returns_witness:
  "stackable [two_node_graph, two_node_graph, two_node_graph]
   \<and> isl (dense_stack [two_node_graph, two_node_graph, two_node_graph])
   \<and> dense_stack [two_node_graph, two_node_graph, two_node_graph] = Inl AssertionError"
proof -
  have h: "stackable [two_node_graph, two_node_graph, two_node_graph]"
    by (simp add: stackable_def has_tensors_def two_node_graph_def)
  with dense_stack_never_returns [of "[two_node_graph, two_node_graph, two_node_graph]"]
  show ?thesis by blast
qed

text \<open>
  Claim C4, as stated: whenever two node counts differ the sparse block union is
  selected, however the graphs were built. The one-node and the two-node graph, built by
  \<open>from_numpy\<close>, have different node counts and go to the dense branch, where stacking
  the adjacencies of shapes 1 x 1 and 2 x 2 raises \<open>RuntimeError\<close>.
\<close>

theorem sparse_union_not_selected_counterexample:
  "node_num one_node_graph \<noteq> node_num two_node_graph
   \<and> \<not> selects_sparse_union [one_node_graph, two_node_graph]
   \<and> dense_stack [one_node_graph, two_node_graph] = Inl RuntimeError"
  by (simp add: selects_sparse_union_def dense_stack_def one_node_graph_def two_node_graph_def
      BaseGraph_init_def set_graph_type_def batch_step_def get_node_features_def
      get_edge_features_def torch_stack_def)

text \<open>
  Claim C4, amended. The sparse block union is selected exactly when the first graph's
  \<open>graph_type\<close> is \<open>'pyg'\<close> and some graph's node count differs from the first graph's;
  then the members' \<open>pyg_graph\<close> objects are handed to \<open>Batch.from_data_list\<close> and its
  result to \<open>from_pyg_graph\<close>. In every other case the dense-stacking branch is entered.
\<close>

theorem sparse_union_selection:
  assumes "graphs \<noteq> []"
  shows "(selects_sparse_union graphs \<longleftrightarrow>
            graph_type (hd graphs) = Some ''pyg''
            \<and> (\<exists>g \<in> set graphs. node_num g \<noteq> node_num (hd graphs)))
         \<and> init_batch_graph from_data_list from_pyg_graph graphs =
             (if selects_sparse_union graphs
              then (case from_data_list (map pyg_graph graphs) of
                      Inl e \<Rightarrow> Inl e
                    | Inr pyg_b_graph \<Rightarrow> from_pyg_graph pyg_b_graph)
              else dense_stack graphs)"
  using assms by (auto simp: selects_sparse_union_def same_node_num_iff init_batch_graph_def)

theorem sparse_union_selection_witness:
  "[set_graph_type one_node_graph (Some ''pyg''), two_node_graph] \<noteq> []
   \<and> selects_sparse_union [set_graph_type one_node_graph (Some ''pyg''), two_node_graph]
   \<and> init_batch_graph (\<lambda>ps. Inl AttributeError) (\<lambda>b. Inl TypeError)
        [set_graph_type one_node_graph (Some ''pyg''), two_node_graph] = Inl AttributeError"
proof -
  have h: "[set_graph_type one_node_graph (Some ''pyg''), two_node_graph] \<noteq> []" by simp
  have s: "selects_sparse_union [set_graph_type one_node_graph (Some ''pyg''), two_node_graph]"
    by (simp add: selects_sparse_union_def set_graph_type_def one_node_graph_def two_node_graph_def)
  from sparse_union_selection [OF h, of "\<lambda>ps. Inl AttributeError" "\<lambda>b. Inl TypeError"] s
  show ?thesis by simp
qed

section \<open>Properties of the spectral positional encoder\<close>

lemma np_argsort_props:
  "length (np_argsort vals) = length vals"
  "set (np_argsort vals) = {0..<length vals}"
  "distinct (np_argsort vals)"
  "sorted (map (\<lambda>i. eig_key (vals ! i)) (np_argsort vals))"
  by (simp_all add: np_argsort_def sorted_sort_key)


lemma py_slice_clamped:
  assumes "int (length xs) \<le> k"
  shows "py_slice xs 1 (k + 1) = drop 1 xs"
  using assms by (cases xs) (simp_all add: py_slice_def Let_def min_def)




lemma lap_positional_encoding_returns:
  assumes "A g = Some adj" "lap adj = Inr normed_L" "eig normed_L = Inr (EigVal, EigVec)"
  shows "lap_positional_encoding lap eig g k =
     Inr (g\<lparr>ndata := (ndata g)
        (''pos_enc'' \<mapsto> Some (matrix_tensor
            (map (\<lambda>row. py_slice (map (\<lambda>i. Re (row ! i)) (np_argsort EigVal)) 1 (k + 1)) EigVec)),
         ''eigvec'' \<mapsto> Some (matrix_tensor
            (map (\<lambda>row. py_slice (map (\<lambda>i. Re (row ! i)) (np_argsort EigVal)) 1 (k + 1)) EigVec)))\<rparr>)"
  using assms by (simp add: lap_positional_encoding_def Let_def comp_def)

lemma lap_positional_encoding_isl:
  "isl (lap_positional_encoding lap eig g k) \<longleftrightarrow>
     (case A g of None \<Rightarrow> True
      | Some adj \<Rightarrow> (case lap adj of Inl e \<Rightarrow> True | Inr normed_L \<Rightarrow> isl (eig normed_L)))"
  by (auto simp: lap_positional_encoding_def Let_def split: option.splits sum.splits)



text \<open>
  Claim C8, as stated: the encoder fails with a numerical error whenever
  \<open>k \<ge> node_count\<close>. On the two-node graph with \<open>k = 2\<close> it returns a record: the
  slice \<open>EigVec[:, 1:3]\<close> is clamped to the one column there is.
\<close>

theorem lap_positional_encoding_large_dim_counterexample:
  "node_num two_node_graph = Some 2
   \<and> lap_positional_encoding k2_laplacian k2_eig two_node_graph 2 =
       Inr (two_node_graph\<lparr>ndata := (ndata two_node_graph)
              (''pos_enc'' \<mapsto> Some (matrix_tensor [[1 / sqrt 2], [- (1 / sqrt 2)]]),
               ''eigvec'' \<mapsto> Some (matrix_tensor [[1 / sqrt 2], [- (1 / sqrt 2)]]))\<rparr>)"
  by (simp add: lap_positional_encoding_def two_node_graph_def k2_laplacian_def k2_eig_def
      np_argsort_def eig_key_def less_eq_prod_def py_slice_def Let_def)

text \<open>
  Claim C8, amended. \<open>k \<ge> node_count\<close> is no failure: whenever the adjacency is present
  and the Laplacian helper and \<open>np.linalg.eig\<close> return, the encoder returns a record for
  every such \<open>k\<close>, and \<open>pos_enc\<close> then has \<open>N\<close> rows of \<open>N - 1\<close> entries. By
  \<open>lap_positional_encoding_isl\<close> the encoder fails exactly when the adjacency is missing
  or one of the two calls raises, as \<open>np.linalg.eig\<close> does when it does not converge.
\<close>

theorem lap_positional_encoding_large_dim:
  assumes "A g = Some adj" "lap adj = Inr normed_L" "eig normed_L = Inr (EigVal, EigVec)"
    and "length EigVal = N" "length EigVec = N"
    and "int N \<le> k"
  shows "\<exists>g' M. lap_positional_encoding lap eig g k = Inr g'
           \<and> ndata g' ''pos_enc'' = Some (Some (matrix_tensor M))
           \<and> length M = N \<and> (\<forall>r < N. length (M ! r) = N - 1)"
proof -
  let ?idx = "np_argsort EigVal"
  let ?M = "map (\<lambda>row. py_slice (map (\<lambda>i. Re (row ! i)) ?idx) 1 (k + 1)) EigVec"
  have len_idx: "length ?idx = N" using assms(4) by (simp add: np_argsort_props)
  have len_row: "length (py_slice (map (\<lambda>i. Re (row ! i)) ?idx) 1 (k + 1)) = N - 1"
    for row :: "complex list"
    using assms(6) len_idx by (simp add: py_slice_clamped)
  have res: "lap_positional_encoding lap eig g k =
     Inr (g\<lparr>ndata := (ndata g)(''pos_enc'' \<mapsto> Some (matrix_tensor ?M),
                                  ''eigvec'' \<mapsto> Some (matrix_tensor ?M))\<rparr>)"
    using assms(1,2,3) by (rule lap_positional_encoding_returns)
  have "length ?M = N \<and> (\<forall>r < N. length (?M ! r) = N - 1)"
    using assms(5) len_row by simp
  with res show ?thesis by fastforce
qed

theorem lap_positional_encoding_large_dim_witness:
  "\<exists>g' M. lap_positional_encoding k2_laplacian k2_eig two_node_graph 5 = Inr g'
           \<and> ndata g' ''pos_enc'' = Some (Some (matrix_tensor M))
           \<and> length M = 2 \<and> (\<forall>r < 2. length (M ! r) = 2 - 1)"
proof -
  have a: "A two_node_graph = Some (Ts [Ts [Sc 0, Sc 1], Ts [Sc 1, Sc 0]])"
    by (simp add: two_node_graph_def)
  have l: "k2_laplacian (Ts [Ts [Sc 0, Sc 1], Ts [Sc 1, Sc 0]])
      = Inr (Ts [Ts [Sc 1, Sc (- 1)], Ts [Sc (- 1), Sc 1]])"
    by (simp add: k2_laplacian_def)
  have e: "k2_eig (Ts [Ts [Sc 1, Sc (- 1)], Ts [Sc (- 1), Sc 1]])
      = Inr ([2, 0], [[of_real (1 / sqrt 2), of_real (1 / sqrt 2)],
                      [of_real (- (1 / sqrt 2)), of_real (1 / sqrt 2)]])"
    by (simp add: k2_eig_def)
  have n1: "length [2, 0 :: complex] = 2" by simp
  have n2: "length [[of_real (1 / sqrt 2), of_real (1 / sqrt 2)],
                    [of_real (- (1 / sqrt 2)), of_real (1 / sqrt 2) :: complex]] = 2" by simp
  have k: "int 2 \<le> 5" by simp
  from lap_positional_encoding_large_dim [of two_node_graph _ k2_laplacian _ k2_eig, OF a l e n1 n2 k]
  show ?thesis by blast
qed

section \<open>Properties of \<open>WalkPooling\<close>\<close>







lemma masked_exp_length:
  "length w = length col \<Longrightarrow> length edge_mask = length col \<Longrightarrow>
   length (masked_exp w col edge_mask) = length col"
  by (simp add: masked_exp_def Let_def)

lemma minus_weights_head_length:
  "length w = length col \<Longrightarrow> length edge_mask = length col \<Longrightarrow>
   length (minus_weights_head w col edge_mask) = length col"
  by (simp add: minus_weights_head_def masked_exp_length Let_def)

















lemma F_softmax_tensor_dim:
  "length col \<noteq> 1 \<Longrightarrow> F_softmax weights col = Inl TypeError"
  by (cases col) (auto simp: F_softmax_def split: list.splits)

lemma weight_encoder_raises:
  assumes "length edge_index \<noteq> 1"
  shows "isl (weight_encoder wp x edge_index edge_mask)"
proof -
  have "F_softmax weights (map snd edge_index) = Inl TypeError" for weights
    using assms by (intro F_softmax_tensor_dim) simp
  then show ?thesis
    by (simp add: weight_encoder_def Let_def split: sum.splits)
qed

lemma forward_raises:
  "length edge_index \<noteq> 1 \<Longrightarrow> isl (forward wp x edge_index edge_mask batch_vec)"
  using weight_encoder_raises [of edge_index wp x edge_mask]
  by (auto simp: forward_def and_then_def split: sum.splits)

lemma broadcast2_commute:
  assumes "\<And>u v. f u v = f v u"
  shows "broadcast2 err f a b = broadcast2 err f b a"
proof -
  have "map2 f a b = map2 f b a" if "length a = length b"
    using that assms by (induction a b rule: list_induct2) simp_all
  then show ?thesis using assms by (auto simp: broadcast2_def)
qed

lemma adv_index_error: "adv_index t rows cols = Inl e \<Longrightarrow> e = IndexError"
  by (auto simp: adv_index_def broadcast2_def split: if_splits)

lemma link_level_symmetric:
  "link_level t index node_i node_j = link_level t index node_j node_i"
proof -
  have c: "broadcast2 RuntimeError (+) a b = broadcast2 RuntimeError (+) b a" for a b :: "real list"
    by (rule broadcast2_commute) simp
  show ?thesis
    by (cases "adv_index t node_i (map (\<lambda>v. index ! v) node_j)";
        cases "adv_index t node_j (map (\<lambda>v. index ! v) node_i)")
       (auto simp: link_level_def and_then_def c dest: adv_index_error)
qed

lemma omega_pair_sum_symmetric:
  "broadcast2 RuntimeError (map2 (+)) [omega_ij] [omega_ji :: real list]
   = broadcast2 RuntimeError (map2 (+)) [omega_ji] [omega_ij]"
proof -
  have "map2 (+) u v = map2 (+) v u" for u v :: "real list"
  proof (induction u arbitrary: v)
    case Nil then show ?case by simp
  next
    case (Cons a u) then show ?case by (cases v) simp_all
  qed
  then show ?thesis by (intro broadcast2_commute)
qed

lemma set_column_shaped:
  "shaped n k m \<Longrightarrow> set_column m j v = Inr m' \<Longrightarrow> shaped n k m'"
  by (auto simp: set_column_def shaped_def list_all_iff split: if_splits dest!: set_zip_leftD)

lemma walk_step_shaped:
  assumes "walk_step wp edge_index index batch_vec batch_size node_i node_j norm_p norm_m head i
             (x_p, x_m, fs) = Inr (x_p', x_m', fs')"
    and "features_shaped n k fs"
  shows "features_shaped n k fs'"
  using assms
  by (auto simp: walk_step_def and_then_def features_shaped_def
      split: sum.splits prod.splits elim: set_column_shaped)

lemma walk_loop_shaped:
  assumes "walk_loop wp edge_index index batch_vec batch_size node_i node_j norm_p norm_m head steps
             (x_p, x_m, fs) = Inr (x_p', x_m', fs')"
    and "features_shaped n k fs"
  shows "features_shaped n k fs'"
  using assms
proof (induction steps arbitrary: x_p x_m fs)
  case Nil
  then show ?case by simp
next
  case (Cons i steps)
  from Cons.prems(1) obtain x_p1 x_m1 fs1 where
    step: "walk_step wp edge_index index batch_vec batch_size node_i node_j norm_p norm_m head i
             (x_p, x_m, fs) = Inr (x_p1, x_m1, fs1)"
    and rest: "walk_loop wp edge_index index batch_vec batch_size node_i node_j norm_p norm_m head steps
             (x_p1, x_m1, fs1) = Inr (x_p', x_m', fs')"
    by (auto simp: and_then_def split: sum.splits)
  from walk_step_shaped [OF step Cons.prems(2)] have "features_shaped n k fs1" .
  from Cons.IH [OF rest this] show ?case .
qed

lemma head_loop_shaped:
  assumes "head_loop wp edge_index index batch_vec batch_size max_nodes node_i node_j
             weights_p weights_m hs fs = Inr fs'"
    and "features_shaped n k fs"
  shows "features_shaped n k fs'"
  using assms
proof (induction hs arbitrary: fs)
  case Nil
  then show ?case by simp
next
  case (Cons h hs)
  from Cons.prems(1) obtain x_p0 x_m0 x_p1 x_m1 fs1 where
    walk: "walk_loop wp edge_index index batch_vec batch_size node_i node_j
             (column h weights_p) (column h weights_m) h [0..<walk_len wp] (x_p0, x_m0, fs)
           = Inr (x_p1, x_m1, fs1)"
    and rest: "head_loop wp edge_index index batch_vec batch_size max_nodes node_i node_j
             weights_p weights_m hs fs1 = Inr fs'"
    by (auto simp: and_then_def split: sum.splits prod.splits)
  from walk_loop_shaped [OF walk Cons.prems(2)] have "features_shaped n k fs1" .
  from Cons.IH [OF rest this] show ?case .
qed

lemma zeros_shaped: "shaped n k (replicate n (replicate k (0::real)))"
  by (simp add: shaped_def list_all_iff)

lemma omega_sum_rows:
  assumes "broadcast2 RuntimeError (map2 (+)) a b = Inr c"
    and "list_all (\<lambda>row. length row = k) a" "list_all (\<lambda>row. length row = k) b"
  shows "list_all (\<lambda>row. length row = k) (c :: real list list)"
proof -
  have ra: "length u = k" if "u \<in> set a" for u using that assms(2) by (simp add: list_all_iff)
  have rb: "length v = k" if "v \<in> set b" for v using that assms(3) by (simp add: list_all_iff)
  have hd_a: "length (hd a) = k" if "length a = 1"
    using that ra by (cases a) simp_all
  have hd_b: "length (hd b) = k" if "length b = 1"
    using that rb by (cases b) simp_all
  have pair: "length (map2 (+) u v) = k" if "(u, v) \<in> set (zip a b)" for u v :: "real list"
    using ra [OF set_zip_leftD [OF that]] rb [OF set_zip_rightD [OF that]] by simp
  consider "length a = length b" "c = map2 (map2 (+)) a b"
    | "length a = 1" "c = map (map2 (+) (hd a)) b"
    | "length b = 1" "c = map (\<lambda>v. map2 (+) v (hd b)) a"
    using assms(1) by (auto simp: broadcast2_def split: if_splits)
  then show ?thesis
  proof cases
    case 1
    then show ?thesis using pair by (auto simp: list_all_iff)
  next
    case 2
    then show ?thesis using hd_a rb by (auto simp: list_all_iff)
  next
    case 3
    then show ?thesis using hd_b ra by (auto simp: list_all_iff)
  qed
qed

lemma arange2_bound: "start \<le> 1 \<Longrightarrow> k \<in> set (arange2 start stop) \<Longrightarrow> k < stop"
  by (auto simp: arange2_def)

lemma selected_rows_width:
  assumes "list_all (\<lambda>row. length row = k) omega" "start \<le> 1"
  shows "list_all (\<lambda>row. length row = k) (map (\<lambda>i. omega ! i) (arange2 start (length omega)))"
  using assms arange2_bound [of start _ "length omega"]
  by (auto simp: list_all_iff)

lemma walk_features_shape:
  assumes "walk_features wp edge_index edge_mask batch_vec weights_p weights_m omega = Inr out"
    and "list_all (\<lambda>row. length row = heads wp) omega"
  shows "shaped (Max (set batch_vec) + 1) (heads wp * (5 * walk_len wp + 1)) out"
proof -
  let ?B = "Max (set batch_vec) + 1"
  let ?K = "walk_len wp * heads wp"
  let ?zeros = "replicate ?B (replicate ?K (0::real))"
  from assms(1) obtain index omega' nodelevel_p nodelevel_m linklevel_p linklevel_m graphlevel where
    om: "broadcast2 RuntimeError (map2 (+))
           (map (\<lambda>k. omega ! k) (arange2 1 (length omega)))
           (map (\<lambda>k. omega ! k) (arange2 0 (length omega))) = Inr omega'"
    and hl: "head_loop wp edge_index index batch_vec ?B (Max (set (unique_counts batch_vec)))
           (map (\<lambda>k. map fst (select_rows edge_index (map Not edge_mask)) ! k) (arange2 0 (length omega)))
           (map (\<lambda>k. map fst (select_rows edge_index (map Not edge_mask)) ! k) (arange2 1 (length omega)))
           weights_p weights_m [0..<heads wp] (?zeros, ?zeros, ?zeros, ?zeros, ?zeros)
         = Inr (nodelevel_p, nodelevel_m, linklevel_p, linklevel_m, graphlevel)"
    and len: "length omega' = ?B"
    and out: "out = map (\<lambda>b. graphlevel ! b @ omega' ! b @ nodelevel_p ! b
                        @ nodelevel_m ! b @ linklevel_p ! b @ linklevel_m ! b) [0..<?B]"
    by (auto simp: walk_features_def and_then_def Let_def split: if_splits sum.splits prod.splits)
  have "features_shaped ?B ?K (?zeros, ?zeros, ?zeros, ?zeros, ?zeros)"
    unfolding features_shaped_def prod.case by (intro conjI zeros_shaped)
  from head_loop_shaped [OF hl this]
  have fs: "shaped ?B ?K nodelevel_p" "shaped ?B ?K nodelevel_m" "shaped ?B ?K linklevel_p"
    "shaped ?B ?K linklevel_m" "shaped ?B ?K graphlevel"
    by (simp_all add: features_shaped_def)
  have ow: "list_all (\<lambda>row. length row = heads wp) omega'"
    by (rule omega_sum_rows [OF om]) (simp_all add: selected_rows_width assms(2))
  have row: "length (graphlevel ! b @ omega' ! b @ nodelevel_p ! b
                        @ nodelevel_m ! b @ linklevel_p ! b @ linklevel_m ! b)
      = heads wp * (5 * walk_len wp + 1)" if "b < ?B" for b
  proof -
    have "length (m ! b) = ?K" if "shaped ?B ?K m" for m :: "real list list"
      using that \<open>b < ?B\<close> by (simp add: shaped_def list_all_length)
    moreover have "length (omega' ! b) = heads wp"
      using ow len \<open>b < ?B\<close> by (simp add: list_all_length)
    ultimately show ?thesis using fs by (simp add: algebra_simps)
  qed
  show ?thesis
    unfolding shaped_def out using row by (simp add: list_all_iff)
qed

text \<open>
  The body of \<open>forward\<close> on the path of three nodes with the candidate link between its
  ends, for given plus and minus weights and \<open>omega\<close> rows \<open>1/3\<close> and \<open>2/3\<close> of the two
  directions: it returns one row of \<open>1 * (5 * 2 + 1) = 11\<close> entries, and the same row
  when the two candidate edges, with their weights, are stored in the other order.
\<close>

lemma walk_features_path_example:
  "walk_features ring_pool path_edges path_mask [0, 0, 0]
     [[1 / 4], [1 / 3], [1 / 5], [3 / 4], [4 / 5], [2 / 3]]
     [[1 / 2], [1], [1], [1 / 2], [0], [0]]
     [[1 / 3], [2 / 3]]
   = Inr [[- (7 / 15), 7 / 10, 1, 13 / 10, 7 / 15, 1, 0, 3 / 10, 253 / 225, 1, 0]]"
  by code_simp

lemma walk_features_path_swapped_example:
  "walk_features ring_pool path_edges_swapped path_mask [0, 0, 0]
     [[1 / 4], [1 / 3], [1 / 5], [3 / 4], [2 / 3], [4 / 5]]
     [[1 / 2], [1], [1], [1 / 2], [0], [0]]
     [[2 / 3], [1 / 3]]
   = Inr [[- (7 / 15), 7 / 10, 1, 13 / 10, 7 / 15, 1, 0, 3 / 10, 253 / 225, 1, 0]]"
  by code_simp

text \<open>
  Claim C1. The claim says that \<open>weights_p\<close> is non-negative and adds up to 1 over the
  edges into each destination. On the two-node graph with the edges \<open>0 \<rightarrow> 1\<close> and
  \<open>1 \<rightarrow> 0\<close> the encoder returns no weights: \<open>F.softmax\<close> is
  \<open>torch.nn.functional.softmax\<close>, which takes the destination vector \<open>edge_index[1]\<close> as
  its axis argument and raises \<open>TypeError\<close>. By \<open>weight_encoder_raises\<close> this happens
  for every edge list of two or more edges.
\<close>

theorem weight_encoder_type_error:
  "weight_encoder ring_pool [[1, 0], [0, 1]] [(0, 1), (1, 0)] [True, True] = Inl TypeError"
  by (simp add: weight_encoder_def attention_mlp_def ring_pool_def F_softmax_def Let_def)

text \<open>
  Claim C5. The claim says that \<open>forward\<close> returns one feature vector of width
  \<open>heads * (5 * walk_len + 1)\<close> per graph. On the ring of four nodes with the candidate
  link between nodes 0 and 2 (\<open>walk_len = 2\<close>, \<open>heads = 1\<close>) it returns nothing: the call of
  \<open>weight_encoder\<close> in line 991 raises the \<open>TypeError\<close> of \<open>F.softmax\<close>, as for every
  input with two or more edges (\<open>forward_raises\<close>). By \<open>walk_features_shape\<close> the rest
  of \<open>forward\<close> does assemble one row of that width per graph whenever it is reached and
  returns.
\<close>

theorem forward_ring_type_error:
  "forward ring_pool ring_x ring_edges ring_mask [0, 0, 0, 0] = Inl TypeError"
  by (simp add: forward_def and_then_def weight_encoder_def attention_mlp_def ring_pool_def
      ring_x_def ring_edges_def ring_mask_def F_softmax_def Let_def)




text \<open>
  Claim C9. The claim compares the outputs of \<open>forward\<close> for the two stored orders of a
  candidate pair. On the path of three nodes with the candidate link between its ends
  \<open>forward\<close> has no output for either order: both calls raise the \<open>TypeError\<close> of
  \<open>F.softmax\<close>. The two statistics the claim names are symmetric in the pair where they
  are computed (\<open>omega_pair_sum_symmetric\<close>, \<open>link_level_symmetric\<close>), and on this
  input the body of \<open>forward\<close> yields one row for both orders
  (\<open>walk_features_path_example\<close>, \<open>walk_features_path_swapped_example\<close>).
\<close>

theorem forward_swapped_pair_type_error:
  "forward ring_pool [[1, 0], [0, 1], [1, 1]] path_edges path_mask [0, 0, 0] = Inl TypeError
   \<and> forward ring_pool [[1, 0], [0, 1], [1, 1]] path_edges_swapped path_mask [0, 0, 0] = Inl TypeError"
  by (simp add: forward_def and_then_def weight_encoder_def attention_mlp_def ring_pool_def
      path_edges_def path_edges_swapped_def path_mask_def F_softmax_def Let_def)

end
